theory Spec2Isabelle
  imports Main
begin

section \<open>The type level: what instantiating \<^verbatim>\<open>iterator_fixup\<close> computes\<close>

text \<open>
  \<^verbatim>\<open>fixup_iterators.cpp\<close> is template code: most of what it does happens when the
  compiler instantiates \<^verbatim>\<open>iterator_fixup<IterTy>\<close>.  The types the templates are
  instantiated with are terms of \<open>cxx_type\<close>; the classes a program declares are looked up
  in a class table; an ill-formed instantiation is a \<open>compile_error\<close>.
\<close>

datatype cxx_type =
    Int_t
  | Bool_t
  | Ptrdiff_t                      \<comment> \<open>\<^verbatim>\<open>std::ptrdiff_t\<close>\<close>
  | Input_iterator_tag             \<comment> \<open>\<^verbatim>\<open>std::input_iterator_tag\<close>\<close>
  | Forward_iterator_tag
  | Bidirectional_iterator_tag
  | Random_access_iterator_tag
  | Class string                   \<comment> \<open>a class of the program, by name\<close>
  | Iterator_fixup cxx_type        \<comment> \<open>the specialization \<^verbatim>\<open>iterator_fixup<IterTy>\<close>\<close>
  | Pointer cxx_type               \<comment> \<open>\<^verbatim>\<open>T*\<close>\<close>
  | LRef cxx_type                  \<comment> \<open>\<^verbatim>\<open>T&\<close>\<close>
  | RRef cxx_type                  \<comment> \<open>\<^verbatim>\<open>T&&\<close>\<close>
  | Const cxx_type                 \<comment> \<open>\<^verbatim>\<open>const T\<close>\<close>
  | Array cxx_type                 \<comment> \<open>\<^verbatim>\<open>T[]\<close>\<close>

text \<open>
  What the templates can ask of a class: its member types, the return types of its member
  operators (\<open>None\<close>: no such member, or the call is ill-formed), and how it can be
  constructed.  \<open>op_deref\<close> and \<open>op_arrow\<close> are the types of the expressions
  \<^verbatim>\<open>x.operator*()\<close> and \<^verbatim>\<open>x.operator->()\<close> for \<open>x\<close> a non-const rvalue of the class, which
  is what \<^verbatim>\<open>std::declval<decayed_type>()\<close> denotes.

  A move constructor is one of three things to overload resolution: a usable one; one that
  is selected and cannot be called (declared and deleted, or inaccessible); or none that
  takes part (none is declared, or it is defaulted and defined as deleted), and then an
  rvalue binds to the copy constructor.
\<close>

datatype ctor_decl = Usable | Deleted | Not_declared

record class_descr =
  value_type :: "cxx_type option"
  difference_type :: "cxx_type option"
  iterator_category :: "cxx_type option"
  reference :: "cxx_type option"
  pointer :: "cxx_type option"
  op_deref :: "cxx_type option"
  op_arrow :: "cxx_type option"
  op_pre_inc :: "cxx_type option"
  op_post_inc :: "cxx_type option"
  op_eq :: "cxx_type option"
  op_neq :: "cxx_type option"
  user_ctors :: "cxx_type list list"   \<comment> \<open>parameter lists of the user-declared constructors\<close>
  implicit_default_ok :: bool          \<comment> \<open>bases and members are default-constructible\<close>
  copy_ctor :: bool                    \<comment> \<open>a usable copy constructor\<close>
  move_ctor :: ctor_decl               \<comment> \<open>what an rvalue of the class selects\<close>
  copy_assign :: bool
  dtor :: bool                         \<comment> \<open>a destructor a derived class can call\<close>
  is_final :: bool
  is_union :: bool
  is_abstract :: bool                  \<comment> \<open>has a pure virtual function\<close>

type_synonym class_env = "(string \<times> class_descr) list"

datatype compile_error =
    Incomplete_type
  | Base_not_class
  | Base_final
  | Base_union
  | No_member_deref
  | No_member_arrow
  | No_matching_ctor
  | No_copy_ctor
  | Deleted_move_ctor
  | Abstract_class
  | No_destructor
  | No_default_ctor

subsection \<open>The standard type traits the source uses\<close>

fun remove_reference :: "cxx_type \<Rightarrow> cxx_type" where
  "remove_reference (LRef t) = t"
| "remove_reference (RRef t) = t"
| "remove_reference t = t"

fun remove_cv :: "cxx_type \<Rightarrow> cxx_type" where
  "remove_cv (Const t) = remove_cv t"
| "remove_cv t = t"

text \<open>\<^verbatim>\<open>std::decay_t\<close>: drop the reference, then turn an array into a pointer and drop the
  top-level qualifiers of anything else.\<close>

definition decay :: "cxx_type \<Rightarrow> cxx_type" where
  "decay t = (case remove_reference t of Array u \<Rightarrow> Pointer u | u \<Rightarrow> remove_cv u)"

subsection \<open>The traits of \<^verbatim>\<open>namespace detail\<close>\<close>

text \<open>Each trait has a primary template and a partial specialization that is chosen when
  \<^verbatim>\<open>typename IterTy::X\<close> is well-formed.\<close>

definition inferred_value_type :: "class_descr \<Rightarrow> cxx_type \<Rightarrow> cxx_type" where
  "inferred_value_type IterTy Reference =
     (case value_type IterTy of
        Some t \<Rightarrow> t
      | None \<Rightarrow> remove_reference Reference)"

definition inferred_difference_type :: "class_descr \<Rightarrow> cxx_type" where
  "inferred_difference_type IterTy =
     (case difference_type IterTy of
        Some t \<Rightarrow> t
      | None \<Rightarrow> Ptrdiff_t)"

definition inferred_iterator_category :: "class_descr \<Rightarrow> cxx_type" where
  "inferred_iterator_category IterTy =
     (case iterator_category IterTy of
        Some t \<Rightarrow> t
      | None \<Rightarrow> Input_iterator_tag)"

subsection \<open>The class template \<^verbatim>\<open>iterator_fixup\<close>\<close>

text \<open>
  The body of the class template, given the class \<open>base\<close> that the base-specifier
  \<^verbatim>\<open>public IterTy\<close> names, the type \<open>decayed_type\<close> and the class \<open>decayed\<close> it names.
  The base must be a class that can be derived from: not final and not a union.
  The result describes \<^verbatim>\<open>iterator_fixup<IterTy>\<close>: its five member types are declared in
  the struct itself, every operator is inherited from the base, the two constructors are
  its only user-declared ones, and copying, moving and destruction are left to the
  compiler.  The implicit move constructor initialises the base from an rvalue; where that
  is ill-formed it is defined as deleted and takes no part in overload resolution.
\<close>

fun is_rref :: "cxx_type \<Rightarrow> bool" where
  "is_rref (RRef t) = True"
| "is_rref t = False"

text \<open>
  How a constructor of the wrapper initialises its base.  \<^verbatim>\<open>IterTy{ iter }\<close>, for the
  parameter \<^verbatim>\<open>const decayed_type &iter\<close>, calls the copy constructor.
  \<^verbatim>\<open>IterTy{ std::move(iter) }\<close>, for the parameter \<^verbatim>\<open>decayed_type &&iter\<close>, calls the
  move constructor of \<open>IterTy\<close>; it is ill-formed when that one is deleted, and binds to
  the copy constructor when none is declared.
\<close>

datatype init_kind = By_copy | By_move

definition init_base :: "class_descr \<Rightarrow> cxx_type \<Rightarrow> compile_error + init_kind" where
  "init_base base param =
     (if is_rref param then
        (case move_ctor base of
           Usable \<Rightarrow> Inr By_move
         | Deleted \<Rightarrow> Inl Deleted_move_ctor
         | Not_declared \<Rightarrow> if copy_ctor base then Inr By_copy else Inl No_copy_ctor)
      else if copy_ctor base then Inr By_copy
      else Inl No_copy_ctor)"

definition has_default_ctor :: "class_descr \<Rightarrow> bool" where
  "has_default_ctor C \<longleftrightarrow>
     [] \<in> set (user_ctors C) \<or> (user_ctors C = [] \<and> implicit_default_ok C)"

definition iterator_fixup ::
  "class_descr \<Rightarrow> cxx_type \<Rightarrow> class_descr \<Rightarrow> compile_error + class_descr" where
  "iterator_fixup base decayed_type decayed =
     (if is_union base then Inl Base_union
      else if is_final base then Inl Base_final
      else case op_deref decayed of
        None \<Rightarrow> Inl No_member_deref
      | Some reference' \<Rightarrow>
     (case op_arrow decayed of
        None \<Rightarrow> Inl No_member_arrow
      | Some pointer' \<Rightarrow>
          Inr \<lparr> value_type = Some (inferred_value_type decayed reference'),
                difference_type = Some (inferred_difference_type decayed),
                iterator_category = Some (inferred_iterator_category decayed),
                reference = Some reference',
                pointer = Some pointer',
                op_deref = op_deref base,
                op_arrow = op_arrow base,
                op_pre_inc = op_pre_inc base,
                op_post_inc = op_post_inc base,
                op_eq = op_eq base,
                op_neq = op_neq base,
                user_ctors = [[LRef (Const decayed_type)], [RRef decayed_type]],
                implicit_default_ok = has_default_ctor base,
                copy_ctor = copy_ctor base,
                move_ctor = (case init_base base (RRef decayed_type) of
                               Inr k \<Rightarrow> Usable
                             | Inl e \<Rightarrow> Not_declared),
                copy_assign = copy_assign base,
                dtor = dtor base,
                is_final = False,
                is_union = False,
                is_abstract = is_abstract base \<rparr>))"

text \<open>A base-specifier must name a class type; its qualifiers are ignored.  Whether the
  class it names can be a base is a matter of the class, checked above.\<close>

fun is_class_type :: "cxx_type \<Rightarrow> bool" where
  "is_class_type (Class n) = True"
| "is_class_type (Iterator_fixup t) = True"
| "is_class_type t = False"

lemma size_remove_cv: "size (remove_cv t) \<le> size t"
  by (induction t) simp_all

lemma size_decay: "size (decay t) \<le> size t"
proof (cases t)
  case (LRef u)
  then show ?thesis
    using size_remove_cv [of u] by (cases u) (simp_all add: decay_def)
next
  case (RRef u)
  then show ?thesis
    using size_remove_cv [of u] by (cases u) (simp_all add: decay_def)
next
  case (Const u)
  then show ?thesis
    using size_remove_cv [of u] by (simp add: decay_def)
qed (simp_all add: decay_def)

text \<open>The class a type names: a declared class, or an instantiation of the template.\<close>

function class_of :: "class_env \<Rightarrow> cxx_type \<Rightarrow> compile_error + class_descr" where
  "class_of env (Class n) =
     (case map_of env n of None \<Rightarrow> Inl Incomplete_type | Some C \<Rightarrow> Inr C)"
| "class_of env (Iterator_fixup IterTy) =
     (if \<not> is_class_type (remove_cv IterTy) then Inl Base_not_class
      else case class_of env (remove_cv IterTy) of
        Inl e \<Rightarrow> Inl e
      | Inr base \<Rightarrow>
     (case class_of env (decay IterTy) of
        Inl e \<Rightarrow> Inl e
      | Inr decayed \<Rightarrow> iterator_fixup base (decay IterTy) decayed))"
| "class_of env Int_t = Inl Base_not_class"
| "class_of env Bool_t = Inl Base_not_class"
| "class_of env Ptrdiff_t = Inl Base_not_class"
| "class_of env Input_iterator_tag = Inl Base_not_class"
| "class_of env Forward_iterator_tag = Inl Base_not_class"
| "class_of env Bidirectional_iterator_tag = Inl Base_not_class"
| "class_of env Random_access_iterator_tag = Inl Base_not_class"
| "class_of env (Pointer t) = Inl Base_not_class"
| "class_of env (LRef t) = Inl Base_not_class"
| "class_of env (RRef t) = Inl Base_not_class"
| "class_of env (Const t) = Inl Base_not_class"
| "class_of env (Array t) = Inl Base_not_class"
  by pat_completeness auto
termination
proof (relation "measure (\<lambda>(env, t). size t)")
  show "wf (measure (\<lambda>(env :: class_env, t :: cxx_type). size t))"
    by simp
next
  fix env :: class_env and IterTy
  show "((env, remove_cv IterTy), (env, Iterator_fixup IterTy)) \<in> measure (\<lambda>(env, t). size t)"
    using size_remove_cv [of IterTy] by simp
next
  fix env :: class_env and IterTy
  show "((env, decay IterTy), (env, Iterator_fixup IterTy)) \<in> measure (\<lambda>(env, t). size t)"
    using size_decay [of IterTy] by simp
qed

subsection \<open>The function template \<^verbatim>\<open>fixup_iterator\<close>\<close>

text \<open>
  \<^verbatim>\<open>fixup_iterator(IterTy &&iter)\<close> takes a forwarding reference: for an lvalue argument
  of type \<open>A\<close> the parameter \<open>IterTy\<close> is deduced as \<open>A&\<close>, for an rvalue as \<open>A\<close>.
  \<^verbatim>\<open>std::forward<IterTy>(iter)\<close> is an lvalue in the first case and an xvalue otherwise.
\<close>

datatype value_category = Lvalue | Xvalue | Prvalue

definition deduce_forwarding :: "value_category \<Rightarrow> cxx_type \<Rightarrow> cxx_type" where
  "deduce_forwarding cat A = (case cat of Lvalue \<Rightarrow> LRef A | _ \<Rightarrow> A)"

definition forward_category :: "cxx_type \<Rightarrow> value_category" where
  "forward_category IterTy = (case IterTy of LRef _ \<Rightarrow> Lvalue | _ \<Rightarrow> Xvalue)"

text \<open>Reference binding of a constructor parameter to an argument of type \<open>A\<close>: a
  \<^verbatim>\<open>const T&\<close> takes every \<open>T\<close> and \<^verbatim>\<open>const T\<close>, a \<^verbatim>\<open>T&&\<close> only a non-const rvalue.\<close>

fun binds :: "cxx_type \<Rightarrow> value_category \<Rightarrow> cxx_type \<Rightarrow> bool" where
  "binds (LRef (Const P)) cat A = (remove_cv A = P)"
| "binds (LRef P) cat A = (cat = Lvalue \<and> A = P)"
| "binds (RRef P) cat A = (cat \<noteq> Lvalue \<and> A = P)"
| "binds P cat A = False"

text \<open>Overload resolution among one-parameter constructors: for an rvalue, binding an
  rvalue reference is better than binding a const lvalue reference.\<close>

definition select_ctor ::
  "cxx_type list list \<Rightarrow> value_category \<Rightarrow> cxx_type \<Rightarrow> cxx_type option" where
  "select_ctor ctors cat A =
     (let viable = concat (map (\<lambda>ps. case ps of [p] \<Rightarrow> if binds p cat A then [p] else []
                                           | _ \<Rightarrow> []) ctors)
      in case filter is_rref viable of
           r # _ \<Rightarrow> Some r
         | [] \<Rightarrow> (case viable of [] \<Rightarrow> None | p # _ \<Rightarrow> Some p))"

text \<open>
  The expression \<^verbatim>\<open>iterator_fixup<IterTy>(arg)\<close> for an argument of category \<open>cat\<close> and
  type \<open>A\<close> (\<open>A\<close> is not a reference; it may be const).  It creates an object, so the
  class must not be abstract and needs a destructor; it selects one of the two
  constructors, which initialises the base.  The result is the type of the object, the
  class it names, the parameter of the constructor that is selected and the way it
  initialises the base.
\<close>

definition construct_inst ::
  "class_env \<Rightarrow> cxx_type \<Rightarrow> value_category \<Rightarrow> cxx_type
     \<Rightarrow> compile_error + (cxx_type \<times> class_descr \<times> cxx_type \<times> init_kind)" where
  "construct_inst env IterTy cat A =
     (case class_of env (Iterator_fixup IterTy) of
        Inl e \<Rightarrow> Inl e
      | Inr W \<Rightarrow>
          if is_abstract W then Inl Abstract_class
          else if \<not> dtor W then Inl No_destructor
          else
     (case select_ctor (user_ctors W) cat A of
        None \<Rightarrow> Inl No_matching_ctor
      | Some param \<Rightarrow>
     (case class_of env (remove_cv IterTy) of
        Inl e \<Rightarrow> Inl e
      | Inr base \<Rightarrow>
     (case init_base base param of
        Inl e \<Rightarrow> Inl e
      | Inr k \<Rightarrow> Inr (Iterator_fixup IterTy, W, param, k)))))"

text \<open>
  The call \<^verbatim>\<open>fixup_iterator(arg)\<close> for an argument of category \<open>cat\<close> and type \<open>A\<close>:
  \<^verbatim>\<open>iterator_fixup<IterTy>(std::forward<IterTy>(iter))\<close> with the deduced \<open>IterTy\<close>.  The
  result is a prvalue, so nothing is copied on return.
\<close>

definition fixup_iterator_inst ::
  "class_env \<Rightarrow> value_category \<Rightarrow> cxx_type
     \<Rightarrow> compile_error + (cxx_type \<times> class_descr \<times> cxx_type \<times> init_kind)" where
  "fixup_iterator_inst env cat A =
     (let IterTy = deduce_forwarding cat A in
      construct_inst env IterTy (forward_category IterTy) (remove_reference IterTy))"

text \<open>\<^verbatim>\<open>iterator_fixup<IterTy> w;\<close> asks for a default constructor.\<close>

definition default_construct :: "class_env \<Rightarrow> cxx_type \<Rightarrow> compile_error + class_descr" where
  "default_construct env IterTy =
     (case class_of env (Iterator_fixup IterTy) of
        Inl e \<Rightarrow> Inl e
      | Inr W \<Rightarrow> if has_default_ctor W then Inr W else Inl No_default_ctor)"

text \<open>The five fields of the metadata a wrapped cursor exposes.\<close>

definition metadata ::
  "class_descr \<Rightarrow>
     cxx_type option \<times> cxx_type option \<times> cxx_type option \<times> cxx_type option \<times> cxx_type option" where
  "metadata C = (reference C, pointer C, value_type C, difference_type C, iterator_category C)"

subsection \<open>The example classes of the source, and more inputs\<close>

definition rvalue_iterator :: class_descr where
  "rvalue_iterator =
     \<lparr> value_type = Some Int_t,
       difference_type = Some Ptrdiff_t,
       iterator_category = Some Input_iterator_tag,
       reference = Some (LRef Int_t),
       pointer = Some (Pointer Int_t),
       op_deref = Some Int_t,
       op_arrow = Some (Pointer Int_t),
       op_pre_inc = Some (LRef (Class ''rvalue_iterator'')),
       op_post_inc = Some (Class ''rvalue_iterator''),
       op_eq = Some Bool_t,
       op_neq = Some Bool_t,
       user_ctors = [],
       implicit_default_ok = True,
       copy_ctor = True,
       move_ctor = Usable,
       copy_assign = True,
       dtor = True,
       is_final = False,
       is_union = False,
       is_abstract = False \<rparr>"

definition pointer_rvalue_iterator :: class_descr where
  "pointer_rvalue_iterator =
     \<lparr> value_type = Some (Pointer Int_t),
       difference_type = Some Ptrdiff_t,
       iterator_category = Some Input_iterator_tag,
       reference = Some (LRef (Pointer Int_t)),
       pointer = Some (Pointer (Pointer Int_t)),
       op_deref = Some (Pointer Int_t),
       op_arrow = Some (Pointer (Pointer Int_t)),
       op_pre_inc = Some (LRef (Class ''pointer_rvalue_iterator'')),
       op_post_inc = Some (Class ''pointer_rvalue_iterator''),
       op_eq = Some Bool_t,
       op_neq = Some Bool_t,
       user_ctors = [],
       implicit_default_ok = True,
       copy_ctor = True,
       move_ctor = Usable,
       copy_assign = True,
       dtor = True,
       is_final = False,
       is_union = False,
       is_abstract = False \<rparr>"

text \<open>
  A cursor that declares no member type at all and reads a \<^verbatim>\<open>const int&\<close>, and variants
  of it: with a user-declared copy constructor and so no move constructor; with a copy
  constructor and a deleted move constructor; declared \<^verbatim>\<open>final\<close>; and a union.
\<close>

definition bare_cursor :: class_descr where
  "bare_cursor =
     \<lparr> value_type = None,
       difference_type = None,
       iterator_category = None,
       reference = None,
       pointer = None,
       op_deref = Some (LRef (Const Int_t)),
       op_arrow = Some (Pointer (Const Int_t)),
       op_pre_inc = Some (LRef (Class ''bare_cursor'')),
       op_post_inc = Some (Class ''bare_cursor''),
       op_eq = Some Bool_t,
       op_neq = Some Bool_t,
       user_ctors = [],
       implicit_default_ok = True,
       copy_ctor = True,
       move_ctor = Usable,
       copy_assign = True,
       dtor = True,
       is_final = False,
       is_union = False,
       is_abstract = False \<rparr>"

definition copy_only_cursor :: class_descr where
  "copy_only_cursor =
     bare_cursor \<lparr> op_pre_inc := Some (LRef (Class ''copy_only_cursor'')),
                   op_post_inc := Some (Class ''copy_only_cursor''),
                   user_ctors := [[Int_t], [LRef (Const (Class ''copy_only_cursor''))]],
                   move_ctor := Not_declared \<rparr>"

definition deleted_move_cursor :: class_descr where
  "deleted_move_cursor =
     bare_cursor \<lparr> op_pre_inc := Some (LRef (Class ''deleted_move_cursor'')),
                   op_post_inc := Some (Class ''deleted_move_cursor''),
                   user_ctors := [[Int_t], [LRef (Const (Class ''deleted_move_cursor''))],
                                  [RRef (Class ''deleted_move_cursor'')]],
                   move_ctor := Deleted \<rparr>"

definition final_cursor :: class_descr where
  "final_cursor =
     bare_cursor \<lparr> op_pre_inc := Some (LRef (Class ''final_cursor'')),
                   op_post_inc := Some (Class ''final_cursor''),
                   is_final := True \<rparr>"

definition union_cursor :: class_descr where
  "union_cursor =
     bare_cursor \<lparr> op_pre_inc := Some (LRef (Class ''union_cursor'')),
                   op_post_inc := Some (Class ''union_cursor''),
                   is_union := True \<rparr>"

definition example_env :: class_env where
  "example_env =
     [(''rvalue_iterator'', rvalue_iterator),
      (''pointer_rvalue_iterator'', pointer_rvalue_iterator),
      (''bare_cursor'', bare_cursor),
      (''copy_only_cursor'', copy_only_cursor),
      (''deleted_move_cursor'', deleted_move_cursor),
      (''final_cursor'', final_cursor),
      (''union_cursor'', union_cursor)]"

section \<open>The run time: what a wrapped cursor does\<close>

text \<open>
  A cursor class at run time.  The state of an object, its own members, is a value of
  \<open>'s\<close>; what its operators reach outside the object, through a pointer or a handle, is
  data of type \<open>'h\<close> that every object shares.  The reading operators and the comparisons
  are functions of the shared data and the object; the two increments return a result
  (of type \<open>'r\<close>) and leave the object and the shared data in a new state.
  \<open>moved_from\<close> is the state in which the move constructor of the class leaves its
  argument; it is \<open>None\<close> for a class without a usable move constructor, whose rvalues
  are copied where they can be.  Copying an object copies its state and leaves the shared data alone.
\<close>

record ('s, 'h, 'r, 'v, 'p) cursor_ops =
  deref :: "'h \<Rightarrow> 's \<Rightarrow> 'v"
  arrow :: "'h \<Rightarrow> 's \<Rightarrow> 'p"
  pre_inc :: "'h \<Rightarrow> 's \<Rightarrow> 'r \<times> 's \<times> 'h"
  post_inc :: "'h \<Rightarrow> 's \<Rightarrow> 'r \<times> 's \<times> 'h"
  cmp_eq :: "'h \<Rightarrow> 's \<Rightarrow> 's \<Rightarrow> bool"
  cmp_neq :: "'h \<Rightarrow> 's \<Rightarrow> 's \<Rightarrow> bool"
  moved_from :: "('s \<Rightarrow> 's) option"

text \<open>An object of type \<^verbatim>\<open>iterator_fixup<IterTy>\<close> has a base subobject and no member
  of its own.\<close>

datatype 's fixup_value = Fixup (base: 's)

text \<open>What initialising an object from an rvalue leaves in the argument: the moved-from
  state when the class has a move constructor, the argument as it was when the rvalue
  binds to the copy constructor.\<close>

definition after_move :: "('s, 'h, 'r, 'v, 'p) cursor_ops \<Rightarrow> 's \<Rightarrow> 's" where
  "after_move ops s = (case moved_from ops of None \<Rightarrow> s | Some f \<Rightarrow> f s)"

text \<open>
  The struct declares no operator: every one is the base's, called on the base subobject.
  An argument of wrapper type is converted to the base's parameter type (it is sliced).
  The increments return what the base's return, which is not a wrapper.  The implicit move
  constructor initialises the base from the base of its argument, as an rvalue: it moves
  the base when the base class has a move constructor and copies it otherwise.
\<close>

definition inherited_ops ::
  "('s, 'h, 'r, 'v, 'p) cursor_ops \<Rightarrow> ('s fixup_value, 'h, 'r, 'v, 'p) cursor_ops" where
  "inherited_ops ops =
     \<lparr> deref = (\<lambda>h w. deref ops h (base w)),
       arrow = (\<lambda>h w. arrow ops h (base w)),
       pre_inc = (\<lambda>h w. case pre_inc ops h (base w) of (r, s', h') \<Rightarrow> (r, Fixup s', h')),
       post_inc = (\<lambda>h w. case post_inc ops h (base w) of (r, s', h') \<Rightarrow> (r, Fixup s', h')),
       cmp_eq = (\<lambda>h w1 w2. cmp_eq ops h (base w1) (base w2)),
       cmp_neq = (\<lambda>h w1 w2. cmp_neq ops h (base w1) (base w2)),
       moved_from = Some (\<lambda>w. Fixup (after_move ops (base w))) \<rparr>"

text \<open>The two constructors: the new object, and the state the argument is left in.\<close>

definition ctor_const_ref :: "'s \<Rightarrow> 's fixup_value \<times> 's" where
  "ctor_const_ref iter = (Fixup iter, iter)"

definition ctor_rvalue_ref ::
  "('s, 'h, 'r, 'v, 'p) cursor_ops \<Rightarrow> 's \<Rightarrow> 's fixup_value \<times> 's" where
  "ctor_rvalue_ref ops iter = (Fixup iter, after_move ops iter)"

text \<open>The call \<^verbatim>\<open>fixup_iterator(arg)\<close>, compiled and run: the wrapper it returns and
  the state it leaves the argument in.\<close>

definition fixup_iterator ::
  "class_env \<Rightarrow> value_category \<Rightarrow> cxx_type \<Rightarrow> ('s, 'h, 'r, 'v, 'p) cursor_ops \<Rightarrow> 's
     \<Rightarrow> compile_error + ('s fixup_value \<times> 's)" where
  "fixup_iterator env cat A ops iter =
     (case fixup_iterator_inst env cat A of
        Inl e \<Rightarrow> Inl e
      | Inr (T, W, param, k) \<Rightarrow>
          Inr (if is_rref param then ctor_rvalue_ref ops iter else ctor_const_ref iter))"

subsection \<open>\<^verbatim>\<open>fixup_range\<close> and the pipe operator\<close>

text \<open>A range is its two bounds; \<open>It\<close> is the type \<^verbatim>\<open>begin()\<close> and \<^verbatim>\<open>end()\<close> return by
  value.\<close>

record 'i iterator_range =
  range_begin :: 'i
  range_end :: 'i

definition make_iterator_range :: "'i \<Rightarrow> 'i \<Rightarrow> 'i iterator_range" where
  "make_iterator_range b e = \<lparr> range_begin = b, range_end = e \<rparr>"

definition fixup_range ::
  "class_env \<Rightarrow> cxx_type \<Rightarrow> ('s, 'h, 'r, 'v, 'p) cursor_ops \<Rightarrow> 's iterator_range
     \<Rightarrow> compile_error + 's fixup_value iterator_range" where
  "fixup_range env It ops rng =
     (case fixup_iterator env Prvalue It ops (range_begin rng) of
        Inl e \<Rightarrow> Inl e
      | Inr (b, _) \<Rightarrow>
     (case fixup_iterator env Prvalue It ops (range_end rng) of
        Inl e \<Rightarrow> Inl e
      | Inr (e, _) \<Rightarrow> Inr (make_iterator_range b e)))"

datatype range_fixup_adaptor = Range_fixup_adaptor

definition op_pipe ::
  "class_env \<Rightarrow> cxx_type \<Rightarrow> ('s, 'h, 'r, 'v, 'p) cursor_ops \<Rightarrow> 's iterator_range
     \<Rightarrow> range_fixup_adaptor \<Rightarrow> compile_error + 's fixup_value iterator_range" where
  "op_pipe env It ops rng adaptor = fixup_range env It ops rng"

subsection \<open>Advancing and reading\<close>

datatype advance = Pre_inc | Post_inc

definition step ::
  "('s, 'h, 'r, 'v, 'p) cursor_ops \<Rightarrow> advance \<Rightarrow> 'h \<Rightarrow> 's \<Rightarrow> 'r \<times> 's \<times> 'h" where
  "step ops a h s = (case a of Pre_inc \<Rightarrow> pre_inc ops h s | Post_inc \<Rightarrow> post_inc ops h s)"

text \<open>The values read before the first advance and after each one, and the results the
  advances return.\<close>

fun reads :: "('s, 'h, 'r, 'v, 'p) cursor_ops \<Rightarrow> 'h \<Rightarrow> 's \<Rightarrow> advance list \<Rightarrow> 'v list" where
  "reads ops h s [] = [deref ops h s]"
| "reads ops h s (a # as) =
     deref ops h s # (case step ops a h s of (r, s', h') \<Rightarrow> reads ops h' s' as)"

fun returns :: "('s, 'h, 'r, 'v, 'p) cursor_ops \<Rightarrow> 'h \<Rightarrow> 's \<Rightarrow> advance list \<Rightarrow> 'r list" where
  "returns ops h s [] = []"
| "returns ops h s (a # as) =
     (case step ops a h s of (r, s', h') \<Rightarrow> r # returns ops h' s' as)"

subsection \<open>Objects in a store\<close>

text \<open>
  To say what two objects share, objects live at addresses, beside the shared data.  A
  declaration \<^verbatim>\<open>iterator_fixup<IterTy> w(c);\<close> constructs a wrapper at the address \<open>w\<close>
  from the cursor at the address \<open>c\<close>, with the constructor from
  \<^verbatim>\<open>const decayed_type&\<close>.  An increment of the object at an address updates that object
  and the shared data, as the operator of its class says; a read through the object at an
  address is the class's read of that object and the shared data.
\<close>

datatype 's object = Cursor_obj 's | Fixup_obj "'s fixup_value"

record ('s, 'h) store =
  objs :: "nat \<Rightarrow> 's object option"
  shared :: 'h







subsection \<open>Cursors to run\<close>

text \<open>\<^verbatim>\<open>rvalue_iterator\<close> of the source (its state is the member \<open>x\<close>, and it shares
  nothing); a cursor that counts in a member of its own; and a cursor that holds a
  pointer \<open>p\<close> to a counter, reads \<open>*p\<close> and advances by \<open>++*p\<close>, so that its copies
  share the counter.\<close>

definition rvalue_iterator_ops :: "(int, unit, int, int, int) cursor_ops" where
  "rvalue_iterator_ops =
     \<lparr> deref = (\<lambda>h x. 1),
       arrow = (\<lambda>h x. x),
       pre_inc = (\<lambda>h x. (x, x, h)),
       post_inc = (\<lambda>h x. (x, x, h)),
       cmp_eq = (\<lambda>h x y. True),
       cmp_neq = (\<lambda>h x y. False),
       moved_from = Some (\<lambda>x. x) \<rparr>"

definition counting_ops :: "(nat, unit, nat, nat, nat) cursor_ops" where
  "counting_ops =
     \<lparr> deref = (\<lambda>h n. n),
       arrow = (\<lambda>h n. n),
       pre_inc = (\<lambda>h n. (Suc n, Suc n, h)),
       post_inc = (\<lambda>h n. (n, Suc n, h)),
       cmp_eq = (\<lambda>h m n. m = n),
       cmp_neq = (\<lambda>h m n. m \<noteq> n),
       moved_from = Some (\<lambda>n. 0) \<rparr>"

text \<open>The counting cursor without a move constructor, as \<open>copy_only_cursor\<close> is.\<close>

definition copy_only_ops :: "(nat, unit, nat, nat, nat) cursor_ops" where
  "copy_only_ops = counting_ops \<lparr> moved_from := None \<rparr>"

definition handle_ops :: "(nat, nat \<Rightarrow> nat, nat, nat, nat) cursor_ops" where
  "handle_ops =
     \<lparr> deref = (\<lambda>h p. h p),
       arrow = (\<lambda>h p. p),
       pre_inc = (\<lambda>h p. (p, p, h(p := Suc (h p)))),
       post_inc = (\<lambda>h p. (p, p, h(p := Suc (h p)))),
       cmp_eq = (\<lambda>h p q. p = q),
       cmp_neq = (\<lambda>h p q. p \<noteq> q),
       moved_from = None \<rparr>"

text \<open>A handle cursor at address 0 that points to the counter 5, which holds 7.\<close>

definition handle_store :: "(nat, nat \<Rightarrow> nat) store" where
  "handle_store = \<lparr> objs = [0 \<mapsto> Cursor_obj 5], shared = (\<lambda>p. 0)(5 := 7) \<rparr>"


subsection \<open>The capability set of the specification\<close>


section \<open>Properties of the instantiation\<close>

declare class_of.simps [simp del]

subsection \<open>What a successful instantiation looks like\<close>

lemma decay_class_type: "is_class_type (remove_cv t) \<Longrightarrow> decay t = remove_cv t"
  by (cases t) (simp_all add: decay_def)

lemma class_type_forwarded:
  "is_class_type (remove_cv A) \<Longrightarrow> forward_category A = Xvalue \<and> remove_reference A = A"
  by (cases A) (simp_all add: forward_category_def)

lemma class_of_fixup_Inr:
  assumes "class_of env (Iterator_fixup IterTy) = Inr W"
  shows "\<exists>B. is_class_type (remove_cv IterTy) \<and> decay IterTy = remove_cv IterTy \<and>
             class_of env (remove_cv IterTy) = Inr B \<and>
             iterator_fixup B (remove_cv IterTy) B = Inr W"
proof -
  from assms have c: "is_class_type (remove_cv IterTy)"
    by (simp add: class_of.simps split: if_splits)
  then have d: "decay IterTy = remove_cv IterTy"
    by (rule decay_class_type)
  from assms c d obtain B where "class_of env (remove_cv IterTy) = Inr B"
    and "iterator_fixup B (remove_cv IterTy) B = Inr W"
    by (auto simp: class_of.simps split: sum.splits)
  with c d show ?thesis by blast
qed

lemma iterator_fixup_Inr:
  assumes "iterator_fixup B T D = Inr W"
  shows "\<exists>r p. \<not> is_union B \<and> \<not> is_final B \<and> op_deref D = Some r \<and> op_arrow D = Some p \<and>
      W = \<lparr> value_type = Some (inferred_value_type D r),
            difference_type = Some (inferred_difference_type D),
            iterator_category = Some (inferred_iterator_category D),
            reference = Some r,
            pointer = Some p,
            op_deref = op_deref B,
            op_arrow = op_arrow B,
            op_pre_inc = op_pre_inc B,
            op_post_inc = op_post_inc B,
            op_eq = op_eq B,
            op_neq = op_neq B,
            user_ctors = [[LRef (Const T)], [RRef T]],
            implicit_default_ok = has_default_ctor B,
            copy_ctor = copy_ctor B,
            move_ctor = (case init_base B (RRef T) of Inr k \<Rightarrow> Usable | Inl e \<Rightarrow> Not_declared),
            copy_assign = copy_assign B,
            dtor = dtor B,
            is_final = False,
            is_union = False,
            is_abstract = is_abstract B \<rparr>"
  using assms by (auto simp: iterator_fixup_def split: if_splits option.splits)

lemma class_of_fixup_iff:
  "(\<exists>W. class_of env (Iterator_fixup IterTy) = Inr W) \<longleftrightarrow>
     (\<exists>B. is_class_type (remove_cv IterTy) \<and> class_of env (remove_cv IterTy) = Inr B \<and>
          \<not> is_union B \<and> \<not> is_final B \<and> op_deref B \<noteq> None \<and> op_arrow B \<noteq> None)"
proof
  assume "\<exists>W. class_of env (Iterator_fixup IterTy) = Inr W"
  then obtain W where w: "class_of env (Iterator_fixup IterTy) = Inr W" ..
  from class_of_fixup_Inr [OF w] obtain B where
    c: "is_class_type (remove_cv IterTy)" and
    b: "class_of env (remove_cv IterTy) = Inr B" and
    f: "iterator_fixup B (remove_cv IterTy) B = Inr W"
    by blast
  from iterator_fixup_Inr [OF f] have
    "\<not> is_union B" "\<not> is_final B" "op_deref B \<noteq> None" "op_arrow B \<noteq> None"
    by auto
  with c b show "\<exists>B. is_class_type (remove_cv IterTy) \<and> class_of env (remove_cv IterTy) = Inr B \<and>
          \<not> is_union B \<and> \<not> is_final B \<and> op_deref B \<noteq> None \<and> op_arrow B \<noteq> None"
    by blast
next
  assume "\<exists>B. is_class_type (remove_cv IterTy) \<and> class_of env (remove_cv IterTy) = Inr B \<and>
          \<not> is_union B \<and> \<not> is_final B \<and> op_deref B \<noteq> None \<and> op_arrow B \<noteq> None"
  then obtain B r p where
    c: "is_class_type (remove_cv IterTy)" and
    b: "class_of env (remove_cv IterTy) = Inr B" and
    f: "\<not> is_union B" "\<not> is_final B" "op_deref B = Some r" "op_arrow B = Some p"
    by auto
  from c have d: "decay IterTy = remove_cv IterTy"
    by (rule decay_class_type)
  from f have "\<exists>W. iterator_fixup B (remove_cv IterTy) B = Inr W"
    by (simp add: iterator_fixup_def)
  with c b d show "\<exists>W. class_of env (Iterator_fixup IterTy) = Inr W"
    by (simp add: class_of.simps)
qed

lemma select_ctor_fixup:
  "select_ctor [[LRef (Const D)], [RRef D]] cat A =
     (if cat \<noteq> Lvalue \<and> A = D then Some (RRef D)
      else if remove_cv A = D then Some (LRef (Const D)) else None)"
  by (simp add: select_ctor_def)

text \<open>Constructing a wrapper from an argument whose type is the cursor class, possibly
  const, is decided by the class alone.\<close>

lemma construct_inst_class:
  assumes w: "class_of env (Iterator_fixup IterTy) = Inr W"
    and a: "remove_cv A = remove_cv IterTy"
  shows "\<exists>B. class_of env (remove_cv IterTy) = Inr B \<and>
           construct_inst env IterTy cat A =
             (if is_abstract B then Inl Abstract_class
              else if \<not> dtor B then Inl No_destructor
              else if cat \<noteq> Lvalue \<and> A = remove_cv IterTy then
                (case move_ctor B of
                   Usable \<Rightarrow> Inr (Iterator_fixup IterTy, W, RRef A, By_move)
                 | Deleted \<Rightarrow> Inl Deleted_move_ctor
                 | Not_declared \<Rightarrow>
                     if copy_ctor B then Inr (Iterator_fixup IterTy, W, RRef A, By_copy)
                     else Inl No_copy_ctor)
              else if copy_ctor B
              then Inr (Iterator_fixup IterTy, W, LRef (Const (remove_cv IterTy)), By_copy)
              else Inl No_copy_ctor)"
proof -
  from class_of_fixup_Inr [OF w] obtain B where
    b: "class_of env (remove_cv IterTy) = Inr B" and
    f: "iterator_fixup B (remove_cv IterTy) B = Inr W"
    by blast
  from iterator_fixup_Inr [OF f] have
    u: "user_ctors W = [[LRef (Const (remove_cv IterTy))], [RRef (remove_cv IterTy)]]" and
    d: "is_abstract W = is_abstract B" "dtor W = dtor B"
    by auto
  have sel: "select_ctor (user_ctors W) cat A =
               Some (if cat \<noteq> Lvalue \<and> A = remove_cv IterTy then RRef A
                     else LRef (Const (remove_cv IterTy)))"
    unfolding u select_ctor_fixup using a by simp
  have "construct_inst env IterTy cat A =
          (if is_abstract B then Inl Abstract_class
           else if \<not> dtor B then Inl No_destructor
           else if cat \<noteq> Lvalue \<and> A = remove_cv IterTy then
             (case move_ctor B of
                Usable \<Rightarrow> Inr (Iterator_fixup IterTy, W, RRef A, By_move)
              | Deleted \<Rightarrow> Inl Deleted_move_ctor
              | Not_declared \<Rightarrow>
                  if copy_ctor B then Inr (Iterator_fixup IterTy, W, RRef A, By_copy)
                  else Inl No_copy_ctor)
           else if copy_ctor B
           then Inr (Iterator_fixup IterTy, W, LRef (Const (remove_cv IterTy)), By_copy)
           else Inl No_copy_ctor)"
    by (simp add: construct_inst_def w d sel b init_base_def split: ctor_decl.splits)
  with b show ?thesis by blast
qed

text \<open>For an rvalue argument \<open>IterTy\<close> is the type of the argument.\<close>

lemma fixup_iterator_inst_rvalue:
  assumes "cat \<noteq> Lvalue"
  shows "fixup_iterator_inst env cat A =
     (case class_of env (Iterator_fixup A) of
        Inl e \<Rightarrow> Inl e
      | Inr W \<Rightarrow> construct_inst env A Xvalue A)"
proof -
  from assms have ded: "deduce_forwarding cat A = A"
    by (cases cat) (simp_all add: deduce_forwarding_def)
  show ?thesis
  proof (cases "class_of env (Iterator_fixup A)")
    case (Inl e)
    with ded show ?thesis by (simp add: fixup_iterator_inst_def construct_inst_def)
  next
    case (Inr W)
    from class_of_fixup_Inr [OF Inr] have "is_class_type (remove_cv A)"
      by blast
    from class_type_forwarded [OF this] ded Inr show ?thesis
      by (simp add: fixup_iterator_inst_def)
  qed
qed

lemma construct_inst_Inr:
  assumes "construct_inst env IterTy cat A = Inr (T, W, param, k)"
  shows "\<exists>B. T = Iterator_fixup IterTy \<and> class_of env T = Inr W \<and>
             \<not> is_abstract W \<and> dtor W \<and>
             class_of env (remove_cv IterTy) = Inr B \<and>
             init_base B param = Inr k"
  using assms
  by (auto simp: construct_inst_def split: sum.splits option.splits if_splits)

text \<open>The example classes, looked up and instantiated.\<close>

lemma class_of_rvalue_iterator:
  "class_of example_env (Class ''rvalue_iterator'') = Inr rvalue_iterator"
  by (simp add: class_of.simps example_env_def)

lemma class_of_bare_cursor:
  "class_of example_env (Class ''bare_cursor'') = Inr bare_cursor"
  by (simp add: class_of.simps example_env_def)

lemma class_of_copy_only_cursor:
  "class_of example_env (Class ''copy_only_cursor'') = Inr copy_only_cursor"
  by (simp add: class_of.simps example_env_def)


lemma class_of_deleted_move_cursor:
  "class_of example_env (Class ''deleted_move_cursor'') = Inr deleted_move_cursor"
  by (simp add: class_of.simps example_env_def)

lemma class_of_pointer_rvalue_iterator:
  "class_of example_env (Class ''pointer_rvalue_iterator'') = Inr pointer_rvalue_iterator"
  by (simp add: class_of.simps example_env_def)

lemma fixup_rvalue_iterator_ok:
  "\<exists>W. class_of example_env (Iterator_fixup (Class ''rvalue_iterator'')) = Inr W"
  by (simp add: class_of_fixup_iff class_of_rvalue_iterator) (simp add: rvalue_iterator_def)

lemma fixup_pointer_rvalue_iterator_ok:
  "\<exists>W. class_of example_env (Iterator_fixup (Class ''pointer_rvalue_iterator'')) = Inr W"
  by (simp add: class_of_fixup_iff class_of_pointer_rvalue_iterator)
     (simp add: pointer_rvalue_iterator_def)

lemma fixup_bare_cursor_ok:
  "\<exists>W. class_of example_env (Iterator_fixup (Class ''bare_cursor'')) = Inr W"
  by (simp add: class_of_fixup_iff class_of_bare_cursor) (simp add: bare_cursor_def)

subsection \<open>The member types of the wrapper\<close>

lemma wrapper_of_class:
  assumes "class_of env (Iterator_fixup IterTy) = Inr W"
  shows "\<exists>C r p. class_of env (decay IterTy) = Inr C \<and> \<not> is_final C \<and>
           op_deref C = Some r \<and> op_arrow C = Some p \<and>
           iterator_fixup C (decay IterTy) C = Inr W \<and>
           reference W = Some r \<and> pointer W = Some p \<and>
           value_type W = Some (inferred_value_type C r) \<and>
           difference_type W = Some (inferred_difference_type C) \<and>
           iterator_category W = Some (inferred_iterator_category C)"
proof -
  from class_of_fixup_Inr [OF assms] obtain B where
    d: "decay IterTy = remove_cv IterTy" and
    b: "class_of env (remove_cv IterTy) = Inr B" and
    w: "iterator_fixup B (remove_cv IterTy) B = Inr W"
    by blast
  from iterator_fixup_Inr [OF w] obtain r p where
    "\<not> is_final B" "op_deref B = Some r" "op_arrow B = Some p"
    "reference W = Some r" "pointer W = Some p"
    "value_type W = Some (inferred_value_type B r)"
    "difference_type W = Some (inferred_difference_type B)"
    "iterator_category W = Some (inferred_iterator_category B)"
    by auto
  with d b w show ?thesis by auto
qed

lemma iterator_fixup_declared_ignored:
  "iterator_fixup (B\<lparr>reference := dr, pointer := dp\<rparr>) T (D\<lparr>reference := dr', pointer := dp'\<rparr>)
     = iterator_fixup B T D"
  by (cases "op_deref D"; cases "op_arrow D")
     (simp_all add: iterator_fixup_def inferred_value_type_def inferred_difference_type_def
      inferred_iterator_category_def has_default_ctor_def init_base_def)

text \<open>
  Claim C1.  Whenever \<^verbatim>\<open>iterator_fixup<IterTy>\<close> is well-formed, its member type
  \<open>reference\<close> is the return type of \<^verbatim>\<open>operator*()\<close> of the decayed cursor class and its
  member type \<open>pointer\<close> is the return type of \<^verbatim>\<open>operator->()\<close>; the \<open>reference\<close> and
  \<open>pointer\<close> the cursor class declares for itself play no part: with any other
  declarations the wrapper is the same.
\<close>

theorem reference_pointer_authoritative:
  assumes "class_of env (Iterator_fixup IterTy) = Inr W"
  shows "\<exists>C r p. class_of env (decay IterTy) = Inr C \<and>
           op_deref C = Some r \<and> op_arrow C = Some p \<and>
           reference W = Some r \<and> pointer W = Some p \<and>
           (\<forall>dr dp. iterator_fixup (C\<lparr>reference := dr, pointer := dp\<rparr>) (decay IterTy)
                       (C\<lparr>reference := dr, pointer := dp\<rparr>) = Inr W)"
proof -
  from wrapper_of_class [OF assms] obtain C r p where
    "class_of env (decay IterTy) = Inr C" "op_deref C = Some r" "op_arrow C = Some p"
    "reference W = Some r" "pointer W = Some p"
    "iterator_fixup C (decay IterTy) C = Inr W"
    by blast
  then show ?thesis
    by (simp add: iterator_fixup_declared_ignored)
qed

text \<open>\<^verbatim>\<open>rvalue_iterator\<close> declares \<^verbatim>\<open>reference = int&\<close>, and its \<^verbatim>\<open>operator*\<close> returns an
  \<^verbatim>\<open>int\<close>: the wrapper's \<open>reference\<close> is \<^verbatim>\<open>int\<close>.\<close>

theorem reference_pointer_authoritative_witness:
  "\<exists>W. class_of example_env (Iterator_fixup (Class ''rvalue_iterator'')) = Inr W \<and>
       reference rvalue_iterator = Some (LRef Int_t) \<and>
       reference W = Some Int_t \<and> pointer W = Some (Pointer Int_t)"
proof -
  from fixup_rvalue_iterator_ok obtain W where
    w: "class_of example_env (Iterator_fixup (Class ''rvalue_iterator'')) = Inr W" ..
  from reference_pointer_authoritative [OF w] obtain C r p where
    c: "class_of example_env (decay (Class ''rvalue_iterator'')) = Inr C" and
    r: "op_deref C = Some r" "op_arrow C = Some p" "reference W = Some r" "pointer W = Some p"
    by blast
  from c have "C = rvalue_iterator"
    by (simp add: decay_def class_of_rvalue_iterator)
  with r have "reference W = Some Int_t" "pointer W = Some (Pointer Int_t)"
    by (simp_all add: rvalue_iterator_def)
  moreover have "reference rvalue_iterator = Some (LRef Int_t)"
    by (simp add: rvalue_iterator_def)
  ultimately show ?thesis using w by simp
qed

text \<open>
  Claim C2.  Whenever \<^verbatim>\<open>iterator_fixup<IterTy>\<close> is well-formed, its member type
  \<open>value_type\<close> is the \<open>value_type\<close> the decayed cursor class declares, whatever that is,
  and, when the class declares none, the wrapper's \<open>reference\<close> with the reference
  removed.
\<close>

theorem value_type_declared_or_inferred:
  assumes "class_of env (Iterator_fixup IterTy) = Inr W"
  shows "\<exists>C r. class_of env (decay IterTy) = Inr C \<and> reference W = Some r \<and>
           value_type W = Some (case value_type C of
                                  Some v \<Rightarrow> v
                                | None \<Rightarrow> remove_reference r)"
proof -
  from wrapper_of_class [OF assms] obtain C r where
    "class_of env (decay IterTy) = Inr C" "reference W = Some r"
    "value_type W = Some (inferred_value_type C r)"
    by blast
  then show ?thesis
    by (auto simp: inferred_value_type_def)
qed

text \<open>\<^verbatim>\<open>pointer_rvalue_iterator\<close> declares \<^verbatim>\<open>value_type = int*\<close>, which is kept;
  \<open>bare_cursor\<close> declares none and reads a \<^verbatim>\<open>const int&\<close>, which gives \<^verbatim>\<open>const int\<close>.\<close>

theorem value_type_declared_or_inferred_witness:
  "(\<exists>W. class_of example_env (Iterator_fixup (Class ''pointer_rvalue_iterator'')) = Inr W \<and>
        value_type W = Some (Pointer Int_t)) \<and>
   (\<exists>W. class_of example_env (Iterator_fixup (Class ''bare_cursor'')) = Inr W \<and>
        reference W = Some (LRef (Const Int_t)) \<and> value_type W = Some (Const Int_t))"
proof -
  from fixup_pointer_rvalue_iterator_ok obtain W1 where
    w1: "class_of example_env (Iterator_fixup (Class ''pointer_rvalue_iterator'')) = Inr W1" ..
  from value_type_declared_or_inferred [OF w1] obtain C1 r1 where
    c1: "class_of example_env (decay (Class ''pointer_rvalue_iterator'')) = Inr C1" and
    v1: "value_type W1 = Some (case value_type C1 of Some v \<Rightarrow> v | None \<Rightarrow> remove_reference r1)"
    by blast
  from c1 have "C1 = pointer_rvalue_iterator"
    by (simp add: decay_def class_of_pointer_rvalue_iterator)
  with v1 have a: "value_type W1 = Some (Pointer Int_t)"
    by (simp add: pointer_rvalue_iterator_def)
  from fixup_bare_cursor_ok obtain W2 where
    w2: "class_of example_env (Iterator_fixup (Class ''bare_cursor'')) = Inr W2" ..
  from value_type_declared_or_inferred [OF w2] obtain C2 r2 where
    c2: "class_of example_env (decay (Class ''bare_cursor'')) = Inr C2" and
    r2: "reference W2 = Some r2" and
    v2: "value_type W2 = Some (case value_type C2 of Some v \<Rightarrow> v | None \<Rightarrow> remove_reference r2)"
    by blast
  from c2 have e2: "C2 = bare_cursor"
    by (simp add: decay_def class_of_bare_cursor)
  from wrapper_of_class [OF w2] c2 e2 have "reference W2 = Some (LRef (Const Int_t))"
    by (auto simp: bare_cursor_def)
  with r2 v2 e2 have b: "reference W2 = Some (LRef (Const Int_t))" "value_type W2 = Some (Const Int_t)"
    by (auto simp: bare_cursor_def)
  from a b w1 w2 show ?thesis by simp
qed

text \<open>
  Claim C5.  Whenever \<^verbatim>\<open>iterator_fixup<IterTy>\<close> is well-formed, its member type
  \<open>iterator_category\<close> is the category the decayed cursor class declares, and
  \<^verbatim>\<open>std::input_iterator_tag\<close> when the class declares none.
\<close>

theorem category_declared_or_input:
  assumes "class_of env (Iterator_fixup IterTy) = Inr W"
  shows "\<exists>C. class_of env (decay IterTy) = Inr C \<and>
           iterator_category W =
             Some (case iterator_category C of
                     Some t \<Rightarrow> t
                   | None \<Rightarrow> Input_iterator_tag)"
proof -
  from wrapper_of_class [OF assms] obtain C where
    "class_of env (decay IterTy) = Inr C"
    "iterator_category W = Some (inferred_iterator_category C)"
    by blast
  then show ?thesis
    by (auto simp: inferred_iterator_category_def)
qed

text \<open>\<open>bare_cursor\<close> declares no category and gets the input category; a copy of it
  that declares the random-access category keeps that.\<close>

theorem category_declared_or_input_witness:
  "(\<exists>W. class_of example_env (Iterator_fixup (Class ''bare_cursor'')) = Inr W \<and>
        iterator_category W = Some Input_iterator_tag) \<and>
   (\<exists>W. class_of [(''c'', bare_cursor\<lparr>iterator_category := Some Random_access_iterator_tag\<rparr>)]
          (Iterator_fixup (Class ''c'')) = Inr W \<and>
        iterator_category W = Some Random_access_iterator_tag)"
proof -
  from fixup_bare_cursor_ok obtain W1 where
    w1: "class_of example_env (Iterator_fixup (Class ''bare_cursor'')) = Inr W1" ..
  from category_declared_or_input [OF w1] obtain C1 where
    "class_of example_env (decay (Class ''bare_cursor'')) = Inr C1"
    "iterator_category W1 =
       Some (case iterator_category C1 of Some t \<Rightarrow> t | None \<Rightarrow> Input_iterator_tag)"
    by blast
  then have a: "iterator_category W1 = Some Input_iterator_tag"
    by (auto simp: decay_def class_of_bare_cursor bare_cursor_def)
  let ?env = "[(''c'', bare_cursor\<lparr>iterator_category := Some Random_access_iterator_tag\<rparr>)]"
  have "\<exists>W. class_of ?env (Iterator_fixup (Class ''c'')) = Inr W"
    by (simp add: class_of_fixup_iff) (simp add: class_of.simps bare_cursor_def)
  then obtain W2 where w2: "class_of ?env (Iterator_fixup (Class ''c'')) = Inr W2" ..
  from category_declared_or_input [OF w2] obtain C2 where
    "class_of ?env (decay (Class ''c'')) = Inr C2"
    "iterator_category W2 =
       Some (case iterator_category C2 of Some t \<Rightarrow> t | None \<Rightarrow> Input_iterator_tag)"
    by blast
  then have b: "iterator_category W2 = Some Random_access_iterator_tag"
    by (auto simp: decay_def class_of.simps)
  from a b w1 w2 show ?thesis by blast
qed

text \<open>
  Claim C6.  Whenever \<^verbatim>\<open>iterator_fixup<IterTy>\<close> is well-formed, its member type
  \<open>difference_type\<close> is the one the decayed cursor class declares, and
  \<^verbatim>\<open>std::ptrdiff_t\<close> when the class declares none.
\<close>

theorem difference_type_declared_or_ptrdiff:
  assumes "class_of env (Iterator_fixup IterTy) = Inr W"
  shows "\<exists>C. class_of env (decay IterTy) = Inr C \<and>
           difference_type W =
             Some (case difference_type C of
                     Some t \<Rightarrow> t
                   | None \<Rightarrow> Ptrdiff_t)"
proof -
  from wrapper_of_class [OF assms] obtain C where
    "class_of env (decay IterTy) = Inr C"
    "difference_type W = Some (inferred_difference_type C)"
    by blast
  then show ?thesis
    by (auto simp: inferred_difference_type_def)
qed

text \<open>\<open>bare_cursor\<close> declares no distance type and gets \<^verbatim>\<open>std::ptrdiff_t\<close>; a copy of
  it that declares \<^verbatim>\<open>int\<close> keeps \<^verbatim>\<open>int\<close>.\<close>

theorem difference_type_declared_or_ptrdiff_witness:
  "(\<exists>W. class_of example_env (Iterator_fixup (Class ''bare_cursor'')) = Inr W \<and>
        difference_type W = Some Ptrdiff_t) \<and>
   (\<exists>W. class_of [(''c'', bare_cursor\<lparr>difference_type := Some Int_t\<rparr>)]
          (Iterator_fixup (Class ''c'')) = Inr W \<and>
        difference_type W = Some Int_t)"
proof -
  from fixup_bare_cursor_ok obtain W1 where
    w1: "class_of example_env (Iterator_fixup (Class ''bare_cursor'')) = Inr W1" ..
  from difference_type_declared_or_ptrdiff [OF w1] obtain C1 where
    "class_of example_env (decay (Class ''bare_cursor'')) = Inr C1"
    "difference_type W1 = Some (case difference_type C1 of Some t \<Rightarrow> t | None \<Rightarrow> Ptrdiff_t)"
    by blast
  then have a: "difference_type W1 = Some Ptrdiff_t"
    by (auto simp: decay_def class_of_bare_cursor bare_cursor_def)
  let ?env = "[(''c'', bare_cursor\<lparr>difference_type := Some Int_t\<rparr>)]"
  have "\<exists>W. class_of ?env (Iterator_fixup (Class ''c'')) = Inr W"
    by (simp add: class_of_fixup_iff) (simp add: class_of.simps bare_cursor_def)
  then obtain W2 where w2: "class_of ?env (Iterator_fixup (Class ''c'')) = Inr W2" ..
  from difference_type_declared_or_ptrdiff [OF w2] obtain C2 where
    "class_of ?env (decay (Class ''c'')) = Inr C2"
    "difference_type W2 = Some (case difference_type C2 of Some t \<Rightarrow> t | None \<Rightarrow> Ptrdiff_t)"
    by blast
  then have b: "difference_type W2 = Some Int_t"
    by (auto simp: decay_def class_of.simps)
  from a b w1 w2 show ?thesis by blast
qed

subsection \<open>Construction\<close>

text \<open>
  Claim C8.  \<^verbatim>\<open>iterator_fixup<IterTy> w;\<close> does not compile, for any \<open>IterTy\<close> and any
  program: the struct declares two constructors, neither without parameters, so it has
  no default constructor.
\<close>

theorem no_default_construction: "\<exists>e. default_construct env IterTy = Inl e"
proof (cases "class_of env (Iterator_fixup IterTy)")
  case (Inl e)
  then show ?thesis by (simp add: default_construct_def)
next
  case (Inr W)
  from class_of_fixup_Inr [OF Inr] obtain B where
    "iterator_fixup B (remove_cv IterTy) B = Inr W" by blast
  from iterator_fixup_Inr [OF this] have "\<not> has_default_ctor W"
    by (auto simp: has_default_ctor_def)
  with Inr show ?thesis by (simp add: default_construct_def)
qed

text \<open>\<^verbatim>\<open>rvalue_iterator\<close> has a default constructor, its wrapper has none.\<close>

theorem no_default_construction_witness:
  "has_default_ctor rvalue_iterator \<and>
   default_construct example_env (Class ''rvalue_iterator'') = Inl No_default_ctor"
proof -
  from no_default_construction [of example_env "Class ''rvalue_iterator''"] obtain e where
    e: "default_construct example_env (Class ''rvalue_iterator'') = Inl e" ..
  from fixup_rvalue_iterator_ok obtain W where
    "class_of example_env (Iterator_fixup (Class ''rvalue_iterator'')) = Inr W" ..
  with e have "e = No_default_ctor"
    by (simp add: default_construct_def split: if_splits)
  with e show ?thesis
    by (simp add: has_default_ctor_def rvalue_iterator_def)
qed


text \<open>An lvalue argument deduces \<open>IterTy\<close> as a reference type, and the struct cannot
  derive from a reference: the call is ill-formed whatever the class.\<close>

lemma fixup_iterator_inst_lvalue: "fixup_iterator_inst env Lvalue A = Inl Base_not_class"
  by (simp add: fixup_iterator_inst_def deduce_forwarding_def construct_inst_def class_of.simps)


text \<open>A union and a class whose move constructor is deleted are rejected as temporaries
  too; a const temporary of the latter is copied.\<close>

lemma fixup_iterator_inst_examples:
  "fixup_iterator_inst example_env Prvalue (Class ''union_cursor'') = Inl Base_union"
  "fixup_iterator_inst example_env Prvalue (Class ''deleted_move_cursor'') = Inl Deleted_move_ctor"
  "\<exists>W. fixup_iterator_inst example_env Prvalue (Const (Class ''deleted_move_cursor'')) =
         Inr (Iterator_fixup (Const (Class ''deleted_move_cursor'')), W,
              LRef (Const (Class ''deleted_move_cursor'')), By_copy)"
proof -
  have "class_of example_env (Iterator_fixup (Class ''union_cursor'')) = Inl Base_union"
    by (simp add: class_of.simps decay_def example_env_def iterator_fixup_def)
       (simp add: union_cursor_def bare_cursor_def)
  then show "fixup_iterator_inst example_env Prvalue (Class ''union_cursor'') = Inl Base_union"
    by (simp add: fixup_iterator_inst_def deduce_forwarding_def construct_inst_def)
  have ne: "Prvalue \<noteq> Lvalue" by simp
  have p: "\<not> is_union deleted_move_cursor" "\<not> is_final deleted_move_cursor"
    "op_deref deleted_move_cursor \<noteq> None" "op_arrow deleted_move_cursor \<noteq> None"
    "\<not> is_abstract deleted_move_cursor" "dtor deleted_move_cursor"
    "copy_ctor deleted_move_cursor" "move_ctor deleted_move_cursor = Deleted"
    by (simp_all add: deleted_move_cursor_def bare_cursor_def)
  with class_of_deleted_move_cursor
  have "\<exists>W. class_of example_env (Iterator_fixup (Class ''deleted_move_cursor'')) = Inr W"
    by (simp add: class_of_fixup_iff)
  then obtain W where w: "class_of example_env (Iterator_fixup (Class ''deleted_move_cursor'')) = Inr W" ..
  from construct_inst_class [OF w, of "Class ''deleted_move_cursor''" Xvalue] p
    class_of_deleted_move_cursor
  have "construct_inst example_env (Class ''deleted_move_cursor'') Xvalue
          (Class ''deleted_move_cursor'') = Inl Deleted_move_ctor"
    by auto
  with fixup_iterator_inst_rvalue [OF ne, of example_env "Class ''deleted_move_cursor''"] w
  show "fixup_iterator_inst example_env Prvalue (Class ''deleted_move_cursor'') =
          Inl Deleted_move_ctor"
    by simp
  from p class_of_deleted_move_cursor
  have "\<exists>W. class_of example_env (Iterator_fixup (Const (Class ''deleted_move_cursor''))) = Inr W"
    by (simp add: class_of_fixup_iff)
  then obtain W' where
    w': "class_of example_env (Iterator_fixup (Const (Class ''deleted_move_cursor''))) = Inr W'" ..
  from construct_inst_class [OF w', of "Const (Class ''deleted_move_cursor'')" Xvalue] p
    class_of_deleted_move_cursor
  have "construct_inst example_env (Const (Class ''deleted_move_cursor'')) Xvalue
          (Const (Class ''deleted_move_cursor'')) =
        Inr (Iterator_fixup (Const (Class ''deleted_move_cursor'')), W',
             LRef (Const (Class ''deleted_move_cursor'')), By_copy)"
    by auto
  with fixup_iterator_inst_rvalue [OF ne, of example_env "Const (Class ''deleted_move_cursor'')"] w'
  show "\<exists>W. fixup_iterator_inst example_env Prvalue (Const (Class ''deleted_move_cursor'')) =
         Inr (Iterator_fixup (Const (Class ''deleted_move_cursor'')), W,
              LRef (Const (Class ''deleted_move_cursor'')), By_copy)"
    by simp
qed



lemma fixup_iterator_inst_temporary:
  assumes "cat \<noteq> Lvalue"
  shows "fixup_iterator_inst env cat A = construct_inst env A Xvalue A"
  using fixup_iterator_inst_rvalue [OF assms, of env A]
  by (cases "class_of env (Iterator_fixup A)") (simp_all add: construct_inst_def)



text \<open>What holds of wrapping twice: the value \<^verbatim>\<open>fixup_iterator\<close> returns (a prvalue, or
  that value moved) is accepted again, the wrapper of the wrapper has the same five member
  types, and the second call returns the wrapper of its argument.\<close>

lemma wrapping_returned_value:
  assumes "fixup_iterator_inst env cat A = Inr (T, W, param, k)" and "cat' \<noteq> Lvalue"
  shows "\<exists>W' k'.
           fixup_iterator_inst env cat' T = Inr (Iterator_fixup T, W', RRef T, k') \<and>
           metadata W' = metadata W \<and>
           fixup_iterator env cat' T (inherited_ops ops) w =
             Inr (Fixup w, after_move (inherited_ops ops) w)"
proof -
  from assms(1) have "construct_inst env (deduce_forwarding cat A)
      (forward_category (deduce_forwarding cat A)) (remove_reference (deduce_forwarding cat A)) =
      Inr (T, W, param, k)"
    by (simp add: fixup_iterator_inst_def Let_def)
  from construct_inst_Inr [OF this] obtain B where
    T: "T = Iterator_fixup (deduce_forwarding cat A)" and
    w: "class_of env T = Inr W" and
    ok: "\<not> is_abstract W" "dtor W" and
    b: "class_of env (remove_cv (deduce_forwarding cat A)) = Inr B" and
    i: "init_base B param = Inr k"
    by blast
  from T have cv: "remove_cv T = T" and ct: "is_class_type (remove_cv T)"
    by simp_all
  from w T class_of_fixup_Inr [of env "deduce_forwarding cat A" W] b have
    f: "iterator_fixup B (remove_cv (deduce_forwarding cat A)) B = Inr W"
    by auto
  from iterator_fixup_Inr [OF f] obtain r p where
    W: "op_deref B = Some r" "op_arrow B = Some p"
       "reference W = Some r" "pointer W = Some p"
       "value_type W = Some (inferred_value_type B r)"
       "difference_type W = Some (inferred_difference_type B)"
       "iterator_category W = Some (inferred_iterator_category B)"
       "op_deref W = op_deref B" "op_arrow W = op_arrow B"
       "\<not> is_union W" "\<not> is_final W" "copy_ctor W = copy_ctor B"
       "move_ctor W = (case init_base B (RRef (remove_cv (deduce_forwarding cat A))) of
                         Inr k \<Rightarrow> Usable | Inl e \<Rightarrow> Not_declared)"
    by auto
  from i W(12,13) have mv: "move_ctor W = Usable \<or> (move_ctor W = Not_declared \<and> copy_ctor W)"
    by (auto simp: init_base_def split: if_splits ctor_decl.splits)
  from W w ct cv have "\<exists>W'. class_of env (Iterator_fixup T) = Inr W'"
    unfolding class_of_fixup_iff by auto
  then obtain W' where w': "class_of env (Iterator_fixup T) = Inr W'" ..
  from class_of_fixup_Inr [OF w'] w cv have f': "iterator_fixup W T W = Inr W'"
    by auto
  from iterator_fixup_Inr [OF f'] W have m: "metadata W' = metadata W"
    by (auto simp: metadata_def inferred_value_type_def inferred_difference_type_def
        inferred_iterator_category_def)
  from construct_inst_class [OF w', of T Xvalue] w cv ok mv
  have "\<exists>k'. construct_inst env T Xvalue T = Inr (Iterator_fixup T, W', RRef T, k')"
    by (auto split: ctor_decl.splits)
  then obtain k' where
    "fixup_iterator_inst env cat' T = Inr (Iterator_fixup T, W', RRef T, k')"
    using fixup_iterator_inst_temporary [OF assms(2), of env T] by auto
  with m show ?thesis
    by (auto simp: fixup_iterator_def ctor_rvalue_ref_def)
qed

text \<open>A wrapped \<open>copy_only_cursor\<close> that is wrapped again as a temporary keeps its
  state: the implicit move constructor of the wrapper copies a base that has no move
  constructor.\<close>

lemma wrapped_copy_only_cursor_is_copied:
  "fixup_iterator example_env Xvalue (Iterator_fixup (Class ''copy_only_cursor''))
     (inherited_ops copy_only_ops) (Fixup 5) = Inr (Fixup (Fixup 5), Fixup 5)"
proof -
  have ne: "Prvalue \<noteq> Lvalue" "Xvalue \<noteq> Lvalue" by simp_all
  have p: "\<not> is_union copy_only_cursor" "\<not> is_final copy_only_cursor"
    "\<not> is_abstract copy_only_cursor" "dtor copy_only_cursor"
    "op_deref copy_only_cursor \<noteq> None" "op_arrow copy_only_cursor \<noteq> None"
    "copy_ctor copy_only_cursor" "move_ctor copy_only_cursor = Not_declared"
    by (simp_all add: copy_only_cursor_def bare_cursor_def)
  with class_of_copy_only_cursor
  have "\<exists>W. class_of example_env (Iterator_fixup (Class ''copy_only_cursor'')) = Inr W"
    by (simp add: class_of_fixup_iff)
  then obtain W where w: "class_of example_env (Iterator_fixup (Class ''copy_only_cursor'')) = Inr W" ..
  from construct_inst_class [OF w, of "Class ''copy_only_cursor''" Xvalue] p
    class_of_copy_only_cursor
  have "construct_inst example_env (Class ''copy_only_cursor'') Xvalue (Class ''copy_only_cursor'') =
          Inr (Iterator_fixup (Class ''copy_only_cursor''), W, RRef (Class ''copy_only_cursor''),
               By_copy)"
    by auto
  with fixup_iterator_inst_temporary [OF ne(1), of example_env "Class ''copy_only_cursor''"]
  have "fixup_iterator_inst example_env Prvalue (Class ''copy_only_cursor'') =
          Inr (Iterator_fixup (Class ''copy_only_cursor''), W, RRef (Class ''copy_only_cursor''),
               By_copy)"
    by simp
  from wrapping_returned_value [OF this ne(2), of copy_only_ops "Fixup 5"]
  show ?thesis
    by (auto simp: after_move_def inherited_ops_def copy_only_ops_def)
qed

text \<open>
  Claim C10.  Wrapping an already wrapped cursor is not always accepted: a wrapped cursor
  held in a variable is an lvalue, for which \<^verbatim>\<open>fixup_iterator\<close> deduces \<open>IterTy\<close> as a
  reference to the wrapper type, and the struct cannot derive from a reference.
  \<^verbatim>\<open>rvalue_iterator\<close> of the source can be wrapped; its wrapper, as an lvalue, cannot.
\<close>

theorem wrapped_lvalue_rejected:
  "\<not> isl (fixup_iterator_inst example_env Prvalue (Class ''rvalue_iterator'')) \<and>
   fixup_iterator_inst example_env Lvalue (Iterator_fixup (Class ''rvalue_iterator'')) =
     Inl Base_not_class"
proof -
  have ne: "Prvalue \<noteq> Lvalue" by simp
  from fixup_rvalue_iterator_ok obtain W where
    w: "class_of example_env (Iterator_fixup (Class ''rvalue_iterator'')) = Inr W" ..
  from construct_inst_class [OF w, of "Class ''rvalue_iterator''" Xvalue]
    class_of_rvalue_iterator
  have "construct_inst example_env (Class ''rvalue_iterator'') Xvalue (Class ''rvalue_iterator'') =
          Inr (Iterator_fixup (Class ''rvalue_iterator''), W, RRef (Class ''rvalue_iterator''),
               By_move)"
    by (auto simp: rvalue_iterator_def)
  with fixup_iterator_inst_temporary [OF ne, of example_env "Class ''rvalue_iterator''"]
  have "\<not> isl (fixup_iterator_inst example_env Prvalue (Class ''rvalue_iterator''))"
    by simp
  then show ?thesis
    by (simp add: fixup_iterator_inst_lvalue)
qed

section \<open>Properties of the wrapped cursor\<close>

subsection \<open>The inherited operators act on the base\<close>

lemma step_inherited:
  "step (inherited_ops ops) a h (Fixup s) =
     (case step ops a h s of (r, s', h') \<Rightarrow> (r, Fixup s', h'))"
  by (cases a) (simp_all add: step_def inherited_ops_def)

lemma reads_inherited: "reads (inherited_ops ops) h (Fixup s) advs = reads ops h s advs"
proof (induction advs arbitrary: s h)
  case Nil
  show ?case by (simp add: inherited_ops_def)
next
  case (Cons a advs)
  have "deref (inherited_ops ops) h (Fixup s) = deref ops h s"
    by (simp add: inherited_ops_def)
  with Cons show ?case
    by (simp add: step_inherited split: prod.splits)
qed

lemma returns_inherited: "returns (inherited_ops ops) h (Fixup s) advs = returns ops h s advs"
  by (induction advs arbitrary: s h) (simp_all add: step_inherited split: prod.splits)

lemma cmp_inherited:
  "cmp_eq (inherited_ops ops) h (Fixup c1) (Fixup c2) = cmp_eq ops h c1 c2"
  "cmp_neq (inherited_ops ops) h (Fixup c1) (Fixup c2) = cmp_neq ops h c1 c2"
  by (simp_all add: inherited_ops_def)

text \<open>
  Claim C3.  For every cursor \<open>c\<close>, every state of the data it shares and every list of
  advances, the wrapper built from \<open>c\<close> reads the same values as \<open>c\<close> before the first
  and after each advance, the advances return the same results, \<^verbatim>\<open>==\<close> and \<^verbatim>\<open>!=\<close> on two
  wrappers are those of the cursors they were built from, and each operator of the
  wrapper is the operator of the base applied to the base subobject.  At the type level
  every operator of the wrapper has the return type the cursor class gives it.
\<close>

theorem wrapped_cursor_is_transparent:
  assumes "class_of env (Iterator_fixup IterTy) = Inr W"
  shows "reads (inherited_ops ops) h (fst (ctor_const_ref c)) advs = reads ops h c advs \<and>
         returns (inherited_ops ops) h (fst (ctor_const_ref c)) advs = returns ops h c advs \<and>
         cmp_eq (inherited_ops ops) h (fst (ctor_const_ref c1)) (fst (ctor_const_ref c2)) =
           cmp_eq ops h c1 c2 \<and>
         cmp_neq (inherited_ops ops) h (fst (ctor_const_ref c1)) (fst (ctor_const_ref c2)) =
           cmp_neq ops h c1 c2 \<and>
         arrow (inherited_ops ops) h (Fixup c) = arrow ops h c \<and>
         pre_inc (inherited_ops ops) h (Fixup c) =
           (fst (pre_inc ops h c), Fixup (fst (snd (pre_inc ops h c))),
            snd (snd (pre_inc ops h c))) \<and>
         post_inc (inherited_ops ops) h (Fixup c) =
           (fst (post_inc ops h c), Fixup (fst (snd (post_inc ops h c))),
            snd (snd (post_inc ops h c))) \<and>
         (\<exists>B. class_of env (remove_cv IterTy) = Inr B \<and>
              op_deref W = op_deref B \<and> op_arrow W = op_arrow B \<and>
              op_pre_inc W = op_pre_inc B \<and> op_post_inc W = op_post_inc B \<and>
              op_eq W = op_eq B \<and> op_neq W = op_neq B)"
proof -
  from class_of_fixup_Inr [OF assms] obtain B where
    b: "class_of env (remove_cv IterTy) = Inr B" and
    w: "iterator_fixup B (remove_cv IterTy) B = Inr W"
    by blast
  from iterator_fixup_Inr [OF w] have
    "op_deref W = op_deref B" "op_arrow W = op_arrow B"
    "op_pre_inc W = op_pre_inc B" "op_post_inc W = op_post_inc B"
    "op_eq W = op_eq B" "op_neq W = op_neq B"
    by auto
  with b have t: "\<exists>B. class_of env (remove_cv IterTy) = Inr B \<and>
              op_deref W = op_deref B \<and> op_arrow W = op_arrow B \<and>
              op_pre_inc W = op_pre_inc B \<and> op_post_inc W = op_post_inc B \<and>
              op_eq W = op_eq B \<and> op_neq W = op_neq B"
    by blast
  have i: "pre_inc (inherited_ops ops) h (Fixup c) =
             (fst (pre_inc ops h c), Fixup (fst (snd (pre_inc ops h c))),
              snd (snd (pre_inc ops h c)))"
          "post_inc (inherited_ops ops) h (Fixup c) =
             (fst (post_inc ops h c), Fixup (fst (snd (post_inc ops h c))),
              snd (snd (post_inc ops h c)))"
          "arrow (inherited_ops ops) h (Fixup c) = arrow ops h c"
    by (simp_all add: inherited_ops_def split: prod.splits)
  from t i show ?thesis
    by (simp add: ctor_const_ref_def reads_inherited returns_inherited cmp_inherited)
qed

text \<open>\<^verbatim>\<open>rvalue_iterator\<close> read twice, the counting cursor at 3 advanced twice, the handle
  cursor advanced once, and the operators of the wrapped \<^verbatim>\<open>rvalue_iterator\<close>.\<close>

theorem wrapped_cursor_is_transparent_witness:
  "reads (inherited_ops rvalue_iterator_ops) () (Fixup 0) [Pre_inc] = [1, 1] \<and>
   reads (inherited_ops counting_ops) () (Fixup 3) [Pre_inc, Post_inc] = [3, 4, 5] \<and>
   reads counting_ops () 3 [Pre_inc, Post_inc] = [3, 4, 5] \<and>
   returns (inherited_ops counting_ops) () (Fixup 3) [Pre_inc, Post_inc] = [4, 4] \<and>
   reads (inherited_ops handle_ops) (shared handle_store) (Fixup 5) [Pre_inc] = [7, 8] \<and>
   cmp_eq (inherited_ops counting_ops) () (Fixup 3) (Fixup 4) = False \<and>
   (\<exists>W. class_of example_env (Iterator_fixup (Class ''rvalue_iterator'')) = Inr W \<and>
        op_pre_inc W = Some (LRef (Class ''rvalue_iterator'')) \<and>
        op_post_inc W = Some (Class ''rvalue_iterator''))"
proof -
  from fixup_rvalue_iterator_ok obtain W where
    w: "class_of example_env (Iterator_fixup (Class ''rvalue_iterator'')) = Inr W" ..
  note t = wrapped_cursor_is_transparent
    [OF w, of counting_ops "()" 3 "[Pre_inc, Post_inc]" 3 4]
  note t' = wrapped_cursor_is_transparent [OF w, of rvalue_iterator_ops "()" 0 "[Pre_inc]" 0 0]
  note t'' = wrapped_cursor_is_transparent
    [OF w, of handle_ops "shared handle_store" 5 "[Pre_inc]" 5 5]
  have r': "reads rvalue_iterator_ops () 0 [Pre_inc] = [1, 1]"
    by (simp add: rvalue_iterator_ops_def step_def)
  have r'': "reads handle_ops (shared handle_store) 5 [Pre_inc] = [7, 8]"
    by (simp add: handle_ops_def handle_store_def step_def)
  have r: "reads counting_ops () 3 [Pre_inc, Post_inc] = [3, 4, 5]"
    "returns counting_ops () 3 [Pre_inc, Post_inc] = [4, 4]"
    "cmp_eq counting_ops () 3 4 = False"
    by (simp_all add: counting_ops_def step_def)
  from t obtain B where
    "class_of example_env (remove_cv (Class ''rvalue_iterator'')) = Inr B"
    "op_pre_inc W = op_pre_inc B" "op_post_inc W = op_post_inc B"
    by blast
  then have "op_pre_inc W = Some (LRef (Class ''rvalue_iterator''))"
    "op_post_inc W = Some (Class ''rvalue_iterator'')"
    by (auto simp: class_of_rvalue_iterator rvalue_iterator_def)
  with t t' t'' r r' r'' w show ?thesis
    by (simp add: ctor_const_ref_def)
qed

subsection \<open>What objects share\<close>











subsection \<open>The pipe operator\<close>

text \<open>
  Claim C9.  \<^verbatim>\<open>range | range_fixup_adaptor{}\<close> is \<^verbatim>\<open>fixup_range(range)\<close>, which is
  \<^verbatim>\<open>boost::make_iterator_range\<close> of \<^verbatim>\<open>fixup_iterator\<close> applied to the range's begin and to
  its end; when the iterator type can be wrapped, that is the range of the two wrapped
  bounds.
\<close>

theorem pipe_is_fixup_range:
  "op_pipe env It ops rng Range_fixup_adaptor = fixup_range env It ops rng \<and>
   fixup_range env It ops rng =
     (case fixup_iterator env Prvalue It ops (range_begin rng) of
        Inl e \<Rightarrow> Inl e
      | Inr (b, _) \<Rightarrow>
     (case fixup_iterator env Prvalue It ops (range_end rng) of
        Inl e \<Rightarrow> Inl e
      | Inr (e, _) \<Rightarrow> Inr (make_iterator_range b e))) \<and>
   ((\<exists>res. fixup_iterator_inst env Prvalue It = Inr res) \<longrightarrow>
      op_pipe env It ops rng Range_fixup_adaptor =
        Inr (make_iterator_range (Fixup (range_begin rng)) (Fixup (range_end rng))))"
proof -
  have "op_pipe env It ops rng Range_fixup_adaptor =
          Inr (make_iterator_range (Fixup (range_begin rng)) (Fixup (range_end rng)))"
    if "fixup_iterator_inst env Prvalue It = Inr res" for res
  proof -
    obtain T W param k where "res = (T, W, param, k)"
      by (cases res) auto
    with that show ?thesis
      by (simp add: op_pipe_def fixup_range_def fixup_iterator_def ctor_rvalue_ref_def
          ctor_const_ref_def)
  qed
  then show ?thesis
    by (auto simp: op_pipe_def fixup_range_def)
qed

text \<open>The counting range from 0 to 3.\<close>

theorem pipe_is_fixup_range_witness:
  "op_pipe example_env (Class ''bare_cursor'') counting_ops
     \<lparr> range_begin = 0, range_end = 3 \<rparr> Range_fixup_adaptor =
     Inr \<lparr> range_begin = Fixup 0, range_end = Fixup 3 \<rparr> \<and>
   fixup_range example_env (Class ''bare_cursor'') counting_ops
     \<lparr> range_begin = 0, range_end = 3 \<rparr> =
     Inr \<lparr> range_begin = Fixup 0, range_end = Fixup 3 \<rparr>"
proof -
  have ne: "Prvalue \<noteq> Lvalue" by simp
  from fixup_bare_cursor_ok obtain W where
    w: "class_of example_env (Iterator_fixup (Class ''bare_cursor'')) = Inr W" ..
  from construct_inst_class [OF w, of "Class ''bare_cursor''" Xvalue] class_of_bare_cursor
  have "\<exists>res. construct_inst example_env (Class ''bare_cursor'') Xvalue (Class ''bare_cursor'') =
          Inr res"
    by (auto simp: bare_cursor_def)
  with fixup_iterator_inst_temporary [OF ne, of example_env "Class ''bare_cursor''"]
  have ex: "\<exists>res. fixup_iterator_inst example_env Prvalue (Class ''bare_cursor'') = Inr res"
    by simp
  note t = pipe_is_fixup_range [of example_env "Class ''bare_cursor''" counting_ops
      "\<lparr> range_begin = 0, range_end = 3 \<rparr>"]
  from t have e1:
    "op_pipe example_env (Class ''bare_cursor'') counting_ops
       \<lparr> range_begin = 0, range_end = 3 \<rparr> Range_fixup_adaptor =
     fixup_range example_env (Class ''bare_cursor'') counting_ops
       \<lparr> range_begin = 0, range_end = 3 \<rparr>"
    by blast
  from t ex have
    "op_pipe example_env (Class ''bare_cursor'') counting_ops
       \<lparr> range_begin = 0, range_end = 3 \<rparr> Range_fixup_adaptor =
     Inr (make_iterator_range (Fixup (range_begin \<lparr> range_begin = 0, range_end = 3 \<rparr>))
            (Fixup (range_end \<lparr> range_begin = 0, range_end = 3 \<rparr>)))"
    by blast
  then have e2:
    "op_pipe example_env (Class ''bare_cursor'') counting_ops
       \<lparr> range_begin = 0, range_end = 3 \<rparr> Range_fixup_adaptor =
     Inr \<lparr> range_begin = Fixup 0, range_end = Fixup 3 \<rparr>"
    by (simp add: make_iterator_range_def)
  from e1 e2 show ?thesis by simp
qed

end
